theory Spec2Isabelle
  imports Complex_Main "HOL-Library.Sublist"
begin

section \<open>Python values and pandas columns\<close>

text \<open>
  Exceptions of the Python code are values. \<open>ValueError\<close> stands for the class and its
  subclasses (what \<^verbatim>\<open>except ValueError\<close> catches); the other constructors are
  exceptions outside that class.
\<close>

datatype pyerr = ValueError | TypeError | OverflowError | AttributeError | KeyError | ReError

text \<open>
  Numbers are Python ints and floats read as exact rationals, with the two float
  infinities. The float NaN is not a number here: it is the missing marker.
\<close>

datatype number = Finite rat | PosInf | NegInf

text \<open>
  A scalar held by a column. \<open>NA\<close> is the missing marker (\<^verbatim>\<open>None\<close>, NaN, NaT:
  whatever \<^verbatim>\<open>isnull\<close> accepts). \<open>Stamp\<close> is a value whose type is
  \<^verbatim>\<open>datetime.datetime\<close> or \<^verbatim>\<open>pandas.Timestamp\<close>, as nanoseconds.
  \<open>Obj\<close> is any other Python object.
\<close>

datatype pyval = NA | Str string | Num number | Stamp int | Bool bool | Obj nat

type_synonym label = int

text \<open>A labelled sequence: the index label of every row beside its value.\<close>

type_synonym 'a col = "(label \<times> 'a) list"

text \<open>
  The dtype of a Series decides what it holds: a numeric dtype holds numbers and NaN,
  \<^verbatim>\<open>datetime64\<close> holds timestamps and NaT, \<^verbatim>\<open>object\<close> holds any scalar.
\<close>

datatype data =
    NumData "number option col"
  | DtData "int option col"
  | ObjData "pyval col"

record series =
  name :: "string option"
  data :: data

definition index :: "'a col \<Rightarrow> label list" where
  "index c = map fst c"

definition col_map :: "('a \<Rightarrow> 'b) \<Rightarrow> 'a col \<Rightarrow> 'b col" where
  "col_map f c = map (apsnd f) c"

fun num_item :: "number option \<Rightarrow> pyval" where
  "num_item None = NA"
| "num_item (Some x) = Num x"

fun dt_item :: "int option \<Rightarrow> pyval" where
  "dt_item None = NA"
| "dt_item (Some t) = Stamp t"

text \<open>The rows of a Series as Python scalars, whatever its dtype.\<close>

fun items :: "data \<Rightarrow> pyval col" where
  "items (NumData c) = col_map num_item c"
| "items (DtData c) = col_map dt_item c"
| "items (ObjData c) = c"

text \<open>\<^verbatim>\<open>numpy.issubdtype(series.dtype, numpy.number)\<close>\<close>

fun is_number_dtype :: "data \<Rightarrow> bool" where
  "is_number_dtype (NumData c) = True"
| "is_number_dtype _ = False"

text \<open>\<^verbatim>\<open>series.dtype.type == numpy.datetime64\<close>\<close>

fun is_datetime64_dtype :: "data \<Rightarrow> bool" where
  "is_datetime64_dtype (DtData c) = True"
| "is_datetime64_dtype _ = False"

text \<open>\<^verbatim>\<open>notnull\<close> and \<^verbatim>\<open>isnull\<close> on Python scalars and on coerced columns.\<close>

definition notnull :: "pyval col \<Rightarrow> bool col" where
  "notnull c = col_map (\<lambda>v. v \<noteq> NA) c"

definition isnull :: "'a option col \<Rightarrow> bool col" where
  "isnull c = col_map (\<lambda>v. v = None) c"

text \<open>
  \<^verbatim>\<open>a & b\<close> on two boolean Series that carry the same index, row by row.
\<close>

definition col_and :: "bool col \<Rightarrow> bool col \<Rightarrow> bool col" where
  "col_and a b = map (\<lambda>((l, x), (k, y)). (l, x \<and> y)) (zip a b)"

text \<open>\<^verbatim>\<open>mask.any()\<close>\<close>

definition col_any :: "bool col \<Rightarrow> bool" where
  "col_any m = (\<exists>b \<in> set (map snd m). b)"

text \<open>
  \<^verbatim>\<open>repr(series.name)\<close> for a name that is \<^verbatim>\<open>None\<close> or a string without
  quotes, backslashes and control characters.
\<close>

fun repr_name :: "string option \<Rightarrow> string" where
  "repr_name None = ''None''"
| "repr_name (Some n) = [CHR 0x27] @ n @ [CHR 0x27]"

section \<open>The pandas primitives the module calls\<close>

text \<open>The keyword arguments the module hands to \<^verbatim>\<open>pandas.to_datetime\<close>.\<close>

record dt_options =
  dayfirst :: bool
  yearfirst :: bool
  utc :: "bool option"
  box :: bool
  format :: "string option"
  exact :: bool

definition default_dt_options :: dt_options where
  "default_dt_options =
     \<lparr>dayfirst = False, yearfirst = False, utc = None, box = True,
      format = None, exact = True\<rparr>"

text \<open>
  The parsers of pandas are not part of the module; they are parameters.
  \<open>numeric_of v\<close> is what \<^verbatim>\<open>pandas.to_numeric\<close> with \<^verbatim>\<open>errors='raise'\<close> makes
  of the scalar \<open>v\<close>: an exception, or a number, or NaN (\<open>None\<close>).
  \<open>datetime_of\<close> is the same for \<^verbatim>\<open>pandas.to_datetime\<close>.
  \<open>timestamp_of\<close> reads the string a \<^verbatim>\<open>datetime64\<close> column is compared with.
\<close>

record pandas =
  numeric_of :: "pyval \<Rightarrow> pyerr + number option"
  datetime_of :: "dt_options \<Rightarrow> pyval \<Rightarrow> pyerr + int option"
  timestamp_of :: "string \<Rightarrow> pyerr + int"

text \<open>\<^verbatim>\<open>errors='coerce'\<close>: what the parser rejects becomes the missing marker.\<close>

definition lenient :: "('a \<Rightarrow> pyerr + 'b option) \<Rightarrow> 'a \<Rightarrow> 'b option" where
  "lenient f v = (case f v of Inl e \<Rightarrow> None | Inr r \<Rightarrow> r)"

text \<open>\<^verbatim>\<open>errors='raise'\<close> on a column: the first rejected row raises.\<close>

fun strict_col :: "('a \<Rightarrow> pyerr + 'b) \<Rightarrow> 'a col \<Rightarrow> pyerr + 'b col" where
  "strict_col f [] = Inr []"
| "strict_col f ((l, v) # c) =
     (case f v of
        Inl e \<Rightarrow> Inl e
      | Inr r \<Rightarrow> (case strict_col f c of Inl e \<Rightarrow> Inl e | Inr rs \<Rightarrow> Inr ((l, r) # rs)))"

section \<open>mask_nonconvertible\<close>

definition mask_nonconvertible ::
  "pandas \<Rightarrow> series \<Rightarrow> string \<Rightarrow> string option \<Rightarrow> bool \<Rightarrow> pyerr + bool col" where
  "mask_nonconvertible P s to_datatype datetime_format exact_date =
     (if to_datatype = ''numeric'' then
        Inr (col_and (notnull (items (data s)))
               (isnull (col_map (lenient (numeric_of P)) (items (data s)))))
      else if to_datatype = ''datetime'' then
        Inr (col_and (notnull (items (data s)))
               (isnull (col_map
                  (lenient (datetime_of P
                     (default_dt_options\<lparr>format := datetime_format, exact := exact_date\<rparr>)))
                  (items (data s)))))
      else Inl ValueError)"

section \<open>to_datetime and to_numeric\<close>

text \<open>The argument is a Series or a scalar; so is the result.\<close>

datatype arg = Column series | Scalar pyval

datatype 'a coerced = CColumn "string option" "'a option col" | CScalar "'a option"

fun pandas_raise :: "(pyval \<Rightarrow> pyerr + 'a option) \<Rightarrow> arg \<Rightarrow> pyerr + 'a coerced" where
  "pandas_raise f (Column s) =
     (case strict_col f (items (data s)) of
        Inl e \<Rightarrow> Inl e
      | Inr c \<Rightarrow> Inr (CColumn (name s) c))"
| "pandas_raise f (Scalar v) =
     (case f v of Inl e \<Rightarrow> Inl e | Inr r \<Rightarrow> Inr (CScalar r))"

fun pandas_coerce :: "(pyval \<Rightarrow> pyerr + 'a option) \<Rightarrow> arg \<Rightarrow> 'a coerced" where
  "pandas_coerce f (Column s) = CColumn (name s) (col_map (lenient f) (items (data s)))"
| "pandas_coerce f (Scalar v) = CScalar (lenient f v)"

text \<open>
  A call returns a value or raises, and leaves the notifications it has issued with
  \<^verbatim>\<open>warnings.warn\<close>, in order.
\<close>

type_synonym 'a outcome = "(pyerr + 'a) \<times> string list"

fun to_datetime_warning :: "arg \<Rightarrow> string" where
  "to_datetime_warning (Column s) =
     repr_name (name s) @ '': value(s) not converted to datetime set as NaT''"
| "to_datetime_warning (Scalar v) = ''Value(s) not converted to datetime set as NaT''"

text \<open>
  The arguments \<^verbatim>\<open>coerce\<close>, \<^verbatim>\<open>unit\<close> and \<^verbatim>\<open>infer_datetime_format\<close> are accepted
  and not used.
\<close>

definition to_datetime ::
  "pandas \<Rightarrow> arg \<Rightarrow> dt_options \<Rightarrow> bool option \<Rightarrow> string \<Rightarrow> bool \<Rightarrow> int coerced outcome" where
  "to_datetime P a opts coerce unit infer_datetime_format =
     (case pandas_raise (datetime_of P opts) a of
        Inr converted \<Rightarrow> (Inr converted, [])
      | Inl ValueError \<Rightarrow>
          (Inr (pandas_coerce (datetime_of P opts) a), [to_datetime_warning a])
      | Inl e \<Rightarrow> (Inl e, []))"

fun to_numeric_warning :: "arg \<Rightarrow> string" where
  "to_numeric_warning (Column s) =
     repr_name (name s) @ '': value(s) not converted to numeric set as NaN''"
| "to_numeric_warning (Scalar v) = ''Value(s) not converted to numeric set as NaN''"

definition to_numeric :: "pandas \<Rightarrow> arg \<Rightarrow> number coerced outcome" where
  "to_numeric P a =
     (case pandas_raise (numeric_of P) a of
        Inr converted \<Rightarrow> (Inr converted, [])
      | Inl ValueError \<Rightarrow> (Inr (pandas_coerce (numeric_of P) a), [to_numeric_warning a])
      | Inl e \<Rightarrow> (Inl e, []))"

section \<open>The column operations of the validators\<close>

text \<open>\<^verbatim>\<open>dropna()\<close>: the rows that are not missing, with their labels.\<close>

fun dropna :: "'a option col \<Rightarrow> 'a col" where
  "dropna [] = []"
| "dropna ((l, None) # c) = dropna c"
| "dropna ((l, Some x) # c) = (l, x) # dropna c"

text \<open>\<^verbatim>\<open>duplicated()\<close>: a row is flagged when an earlier row has its value.\<close>

fun duplicated_after :: "'a list \<Rightarrow> 'a col \<Rightarrow> bool col" where
  "duplicated_after seen [] = []"
| "duplicated_after seen ((l, x) # c) = (l, x \<in> set seen) # duplicated_after (x # seen) c"

definition duplicated :: "'a col \<Rightarrow> bool col" where
  "duplicated c = duplicated_after [] c"

fun num_less :: "number \<Rightarrow> number \<Rightarrow> bool" where
  "num_less (Finite a) (Finite b) = (a < b)"
| "num_less (Finite a) PosInf = True"
| "num_less NegInf (Finite b) = True"
| "num_less NegInf PosInf = True"
| "num_less x y = False"

text \<open>The truth value Python gives a bound in \<^verbatim>\<open>if min_value:\<close>.\<close>

fun truthy_number :: "number option \<Rightarrow> bool" where
  "truthy_number None = False"
| "truthy_number (Some (Finite q)) = (q \<noteq> 0)"
| "truthy_number (Some PosInf) = True"
| "truthy_number (Some NegInf) = True"

fun truthy_string :: "string option \<Rightarrow> bool" where
  "truthy_string None = False"
| "truthy_string (Some s) = (s \<noteq> [])"

text \<open>\<^verbatim>\<open>int(x)\<close> truncates towards zero and rejects the infinities.\<close>

definition trunc :: "rat \<Rightarrow> int" where
  "trunc q = (if 0 \<le> q then \<lfloor>q\<rfloor> else \<lceil>q\<rceil>)"

fun py_int :: "number \<Rightarrow> pyerr + int" where
  "py_int (Finite q) = Inr (trunc q)"
| "py_int PosInf = Inl OverflowError"
| "py_int NegInf = Inl OverflowError"

text \<open>
  \<^verbatim>\<open>(converted.dropna() != converted.dropna().apply(int)).any()\<close>, on the rows that
  are not missing.
\<close>

definition noninteger_any :: "number col \<Rightarrow> pyerr + bool" where
  "noninteger_any c =
     (case strict_col py_int c of
        Inl e \<Rightarrow> Inl e
      | Inr ints \<Rightarrow>
          Inr (col_any (map (\<lambda>((l, x), (k, i)). (l, x \<noteq> Finite (of_int i))) (zip c ints))))"

text \<open>\<^verbatim>\<open>pandas.Series(value, index=...)\<close>: one value at every label.\<close>

definition broadcast :: "'a \<Rightarrow> label list \<Rightarrow> 'a col" where
  "broadcast b idx = map (\<lambda>l. (l, b)) idx"

text \<open>
  \<^verbatim>\<open>_get_error_messages\<close>: the masks in the order of their insertion, the message of
  every mask with a true row.
\<close>

fun get_error_messages ::
  "(string \<times> bool col) list \<Rightarrow> (string \<times> string) list \<Rightarrow> pyerr + string list" where
  "get_error_messages [] error_info = Inr []"
| "get_error_messages ((key, value) # masks) error_info =
     (if col_any value then
        (case map_of error_info key of
           None \<Rightarrow> Inl KeyError
         | Some m \<Rightarrow>
             (case get_error_messages masks error_info of
                Inl e \<Rightarrow> Inl e
              | Inr msg_list \<Rightarrow> Inr (m # msg_list)))
      else get_error_messages masks error_info)"

text \<open>\<^verbatim>\<open>sep.join(parts)\<close>\<close>

fun join :: "string \<Rightarrow> string list \<Rightarrow> string" where
  "join sep [] = []"
| "join sep [x] = x"
| "join sep (x # y # xs) = x @ sep @ join sep (y # xs)"

text \<open>
  The mask frame: the names of its columns and, for every label, the row of their
  entries. An entry is absent (\<open>None\<close>) where a mask has no row for the label.
\<close>

record frame =
  columns :: "string list"
  rows :: "bool option list col"

text \<open>
  \<^verbatim>\<open>pandas.concat(masks, axis='columns')\<close>: the labels of all masks in the order of
  their first appearance, and every mask looked up by label. Labels are looked up as
  pandas does when they are pairwise distinct.
\<close>

definition union_index :: "label list list \<Rightarrow> label list" where
  "union_index idxs = foldl (\<lambda>acc idx. acc @ filter (\<lambda>l. l \<notin> set acc) idx) [] idxs"

definition concat_columns :: "(string \<times> bool col) list \<Rightarrow> frame" where
  "concat_columns masks =
     \<lparr>columns = map fst masks,
      rows = map (\<lambda>l. (l, map (\<lambda>(key, m). map_of m l) masks))
               (union_index (map (\<lambda>(key, m). index m) masks))\<rparr>"

text \<open>\<^verbatim>\<open>mask_frame.any(axis=1)\<close>: absent entries are skipped.\<close>

definition frame_any :: "frame \<Rightarrow> bool col" where
  "frame_any f = col_map (\<lambda>r. Some True \<in> set r) (rows f)"

text \<open>
  \<^verbatim>\<open>converted.where(cond)\<close>: the value where the condition is true, the missing
  marker elsewhere; the condition is read row by row when it has the index of the
  column, and by label otherwise.
\<close>

definition where_col :: "'a option col \<Rightarrow> bool col \<Rightarrow> 'a option col" where
  "where_col c cond =
     (if index cond = index c then
        map (\<lambda>((l, v), (k, b)). (l, if b then v else None)) (zip c cond)
      else map (\<lambda>(l, v). (l, if map_of cond l = Some True then v else None)) c)"

datatype 'a result =
    RNone
  | RFrame frame
  | RMaskSeries "bool col"
  | RValues "'a option col"

text \<open>
  The end of \<^verbatim>\<open>validate_datetime\<close> and of \<^verbatim>\<open>validate_numeric\<close>, the same lines in
  both: what \<^verbatim>\<open>return_type\<close> selects.
\<close>

definition select_return ::
  "'a option col \<Rightarrow> (string \<times> bool col) list \<Rightarrow> string option \<Rightarrow> pyerr + 'a result" where
  "select_return converted masks return_type =
     (case return_type of
        None \<Rightarrow> Inr RNone
      | Some rt \<Rightarrow>
          (let mask_frame = concat_columns masks in
           if rt = ''mask_frame'' then Inr (RFrame mask_frame)
           else if rt = ''mask_series'' then Inr (RMaskSeries (frame_any mask_frame))
           else if rt = ''values'' then
             Inr (RValues (where_col converted (col_map Not (frame_any mask_frame))))
           else Inl ValueError))"

text \<open>The one notification of a validator: nothing when no check is triggered.\<close>

definition validation_warning :: "series \<Rightarrow> string list \<Rightarrow> string list" where
  "validation_warning s msg_list =
     (if length msg_list > 0 then [repr_name (name s) @ '': '' @ join ''; '' msg_list @ ''.'']
      else [])"

section \<open>validate_datetime\<close>

definition datetime_error_info :: "(string \<times> string) list" where
  "datetime_error_info =
     [(''nonconvertible'', ''Value(s) not converted to datetime set as NaT''),
      (''isnull'', ''NaT value(s)''),
      (''nonunique'', ''duplicates''),
      (''too_low'', ''date(s) too early''),
      (''too_high'', ''date(s) too late'')]"

text \<open>The coercion step: a \<^verbatim>\<open>datetime64\<close> column is copied, any other is parsed leniently.\<close>

fun converted_datetime :: "pandas \<Rightarrow> data \<Rightarrow> int option col" where
  "converted_datetime P (DtData c) = c"
| "converted_datetime P d = col_map (lenient (datetime_of P default_dt_options)) (items d)"

text \<open>A mask that is built only when its bound counts as true; the bound is a string.\<close>

definition datetime_bound_mask ::
  "pandas \<Rightarrow> string \<Rightarrow> (int \<Rightarrow> int \<Rightarrow> bool) \<Rightarrow> int option col \<Rightarrow> string option
     \<Rightarrow> pyerr + (string \<times> bool col) list" where
  "datetime_bound_mask P key rel converted bound =
     (case bound of
        None \<Rightarrow> Inr []
      | Some b \<Rightarrow>
          if truthy_string bound then
            (case timestamp_of P b of
               Inl e \<Rightarrow> Inl e
             | Inr t \<Rightarrow> Inr [(key, col_map (\<lambda>x. rel x t) (dropna converted))])
          else Inr [])"

definition datetime_masks ::
  "pandas \<Rightarrow> series \<Rightarrow> int option col \<Rightarrow> bool \<Rightarrow> bool \<Rightarrow> string option \<Rightarrow> string option
     \<Rightarrow> pyerr + (string \<times> bool col) list" where
  "datetime_masks P s converted nullable unique min_datetime max_datetime =
     (case datetime_bound_mask P ''too_low'' (<) converted min_datetime of
        Inl e \<Rightarrow> Inl e
      | Inr too_low \<Rightarrow>
          (case datetime_bound_mask P ''too_high'' (>) converted max_datetime of
             Inl e \<Rightarrow> Inl e
           | Inr too_high \<Rightarrow>
               Inr ([(''nonconvertible'', col_and (notnull (items (data s))) (isnull converted))]
                    @ (if \<not> nullable then [(''isnull'', isnull converted)] else [])
                    @ (if unique then [(''nonunique'', duplicated (dropna converted))] else [])
                    @ too_low @ too_high)))"

text \<open>\<^verbatim>\<open>validate_datetime\<close> from the line \<^verbatim>\<open>masks = {}\<close> on.\<close>

definition datetime_report ::
  "pandas \<Rightarrow> series \<Rightarrow> int option col \<Rightarrow> bool \<Rightarrow> bool \<Rightarrow> string option \<Rightarrow> string option
     \<Rightarrow> string option \<Rightarrow> int result outcome" where
  "datetime_report P s converted nullable unique min_datetime max_datetime return_type =
     (case datetime_masks P s converted nullable unique min_datetime max_datetime of
        Inl e \<Rightarrow> (Inl e, [])
      | Inr masks \<Rightarrow>
          (case get_error_messages masks datetime_error_info of
             Inl e \<Rightarrow> (Inl e, [])
           | Inr msg_list \<Rightarrow>
               (select_return converted masks return_type, validation_warning s msg_list)))"

definition validate_datetime ::
  "pandas \<Rightarrow> series \<Rightarrow> bool \<Rightarrow> bool \<Rightarrow> string option \<Rightarrow> string option \<Rightarrow> string option
     \<Rightarrow> int result outcome" where
  "validate_datetime P s nullable unique min_datetime max_datetime return_type =
     datetime_report P s (converted_datetime P (data s)) nullable unique min_datetime
       max_datetime return_type"

section \<open>validate_numeric\<close>

definition numeric_error_info :: "(string \<times> string) list" where
  "numeric_error_info =
     [(''nonconvertible'', ''Value(s) not converted to datetime set as NaT''),
      (''isnull'', ''NaN value(s)''),
      (''nonunique'', ''duplicates''),
      (''noninteger'', ''non-integer(s)''),
      (''too_low'', ''value(s) too low''),
      (''too_high'', ''values(s) too high'')]"

text \<open>The coercion step: a numeric column is copied, any other is parsed leniently.\<close>

fun converted_numeric :: "pandas \<Rightarrow> data \<Rightarrow> number option col" where
  "converted_numeric P (NumData c) = c"
| "converted_numeric P d = col_map (lenient (numeric_of P)) (items d)"

definition numeric_bound_mask ::
  "string \<Rightarrow> (number \<Rightarrow> number \<Rightarrow> bool) \<Rightarrow> number option col \<Rightarrow> number option
     \<Rightarrow> (string \<times> bool col) list" where
  "numeric_bound_mask key rel converted bound =
     (case bound of
        None \<Rightarrow> []
      | Some b \<Rightarrow>
          if truthy_number bound then [(key, col_map (\<lambda>x. rel x b) (dropna converted))]
          else [])"

definition numeric_masks ::
  "series \<Rightarrow> number option col \<Rightarrow> bool \<Rightarrow> bool \<Rightarrow> bool \<Rightarrow> number option \<Rightarrow> number option
     \<Rightarrow> pyerr + (string \<times> bool col) list" where
  "numeric_masks s converted nullable unique integer min_value max_value =
     (case (if integer then
              (case noninteger_any (dropna converted) of
                 Inl e \<Rightarrow> Inl e
               | Inr null_dropped \<Rightarrow>
                   Inr [(''noninteger'', broadcast null_dropped (index (items (data s))))])
            else Inr []) of
        Inl e \<Rightarrow> Inl e
      | Inr noninteger \<Rightarrow>
          Inr ([(''nonconvertible'', col_and (notnull (items (data s))) (isnull converted))]
               @ (if \<not> nullable then [(''isnull'', isnull converted)] else [])
               @ (if unique then [(''nonunique'', duplicated (dropna converted))] else [])
               @ noninteger
               @ numeric_bound_mask ''too_low'' num_less converted min_value
               @ numeric_bound_mask ''too_high'' (\<lambda>x y. num_less y x) converted max_value))"

text \<open>\<^verbatim>\<open>validate_numeric\<close> from the line \<^verbatim>\<open>masks = {}\<close> on.\<close>

definition numeric_report ::
  "series \<Rightarrow> number option col \<Rightarrow> bool \<Rightarrow> bool \<Rightarrow> bool \<Rightarrow> number option \<Rightarrow> number option
     \<Rightarrow> string option \<Rightarrow> number result outcome" where
  "numeric_report s converted nullable unique integer min_value max_value return_type =
     (case numeric_masks s converted nullable unique integer min_value max_value of
        Inl e \<Rightarrow> (Inl e, [])
      | Inr masks \<Rightarrow>
          (case get_error_messages masks numeric_error_info of
             Inl e \<Rightarrow> (Inl e, [])
           | Inr msg_list \<Rightarrow>
               (select_return converted masks return_type, validation_warning s msg_list)))"

definition validate_numeric ::
  "pandas \<Rightarrow> series \<Rightarrow> bool \<Rightarrow> bool \<Rightarrow> bool \<Rightarrow> number option \<Rightarrow> number option \<Rightarrow> string option
     \<Rightarrow> number result outcome" where
  "validate_numeric P s nullable unique integer min_value max_value return_type =
     numeric_report s (converted_numeric P (data s)) nullable unique integer min_value
       max_value return_type"

section \<open>to_string\<close>

text \<open>
  What the module takes from Python itself, as parameters: \<^verbatim>\<open>float_format % x\<close>,
  \<^verbatim>\<open>x.strftime(format)\<close>, \<^verbatim>\<open>str(x)\<close>, the \<^verbatim>\<open>is...\<close> methods of \<^verbatim>\<open>str\<close>
  by name, \<^verbatim>\<open>re.compile\<close> (the compiled pattern as its search test) and
  \<^verbatim>\<open>os.linesep\<close>.
\<close>

record builtins =
  percent_format :: "string \<Rightarrow> number \<Rightarrow> pyerr + string"
  strftime :: "int \<Rightarrow> string \<Rightarrow> pyerr + string"
  str_of :: "pyval \<Rightarrow> string"
  str_method :: "string \<Rightarrow> (string \<Rightarrow> bool) option"
  re_compile :: "string \<Rightarrow> pyerr + (string \<Rightarrow> bool)"
  linesep :: string

text \<open>\<^verbatim>\<open>series[mask]\<close>: the rows at which the mask is true.\<close>

definition select_mask :: "'a col \<Rightarrow> bool col \<Rightarrow> 'a col" where
  "select_mask c msk = map fst (filter (\<lambda>(r, (k, b)). b) (zip c msk))"

text \<open>
  \<^verbatim>\<open>converted[mask] = values\<close>: at the rows of the mask, the value that \<open>values\<close>
  has for the label (the missing marker when it has none).
\<close>

definition setitem_mask :: "pyval col \<Rightarrow> bool col \<Rightarrow> pyval col \<Rightarrow> pyval col" where
  "setitem_mask c msk vals =
     map (\<lambda>((l, x), (k, b)).
            (l, if b then (case map_of vals l of None \<Rightarrow> NA | Some v \<Rightarrow> v) else x))
       (zip c msk)"

text \<open>\<^verbatim>\<open>converted.where(mask, other)\<close> on three Series with one index.\<close>

definition where_other :: "'a col \<Rightarrow> bool col \<Rightarrow> 'a col \<Rightarrow> 'a col" where
  "where_other c msk other =
     map (\<lambda>((l, x), (k, b), (j, y)). (l, if b then x else y)) (zip c (zip msk other))"

text \<open>\<^verbatim>\<open>numpy.issubdtype(type(x), numpy.number)\<close>; NaN is a float.\<close>

fun is_number_type :: "pyval \<Rightarrow> bool" where
  "is_number_type (Num x) = True"
| "is_number_type NA = True"
| "is_number_type v = False"

text \<open>\<^verbatim>\<open>float_format % x\<close> on a row.\<close>

fun format_item :: "builtins \<Rightarrow> string \<Rightarrow> pyval \<Rightarrow> pyerr + pyval" where
  "format_item B float_format (Num x) =
     (case percent_format B float_format x of Inl e \<Rightarrow> Inl e | Inr t \<Rightarrow> Inr (Str t))"
| "format_item B float_format v = Inl TypeError"

text \<open>
  \<^verbatim>\<open>_numeric_to_string\<close>, on the rows of the Series. The copy is a value here; the
  section on the store has it as an object of its own.
\<close>

definition numeric_to_string :: "builtins \<Rightarrow> pyval col \<Rightarrow> string \<Rightarrow> pyerr + pyval col" where
  "numeric_to_string B series float_format =
     (let converted = series;
          numeric_mask = col_and (col_map is_number_type series) (notnull series)
      in if col_any numeric_mask then
           (case strict_col (format_item B float_format) (select_mask series numeric_mask) of
              Inl e \<Rightarrow> Inl e
            | Inr formatted \<Rightarrow>
                Inr (where_other (setitem_mask converted numeric_mask formatted)
                       numeric_mask series))
         else Inr (where_other converted numeric_mask series))"

text \<open>\<^verbatim>\<open>type(x)\<close> is \<^verbatim>\<open>datetime.datetime\<close> or \<^verbatim>\<open>pandas.Timestamp\<close>.\<close>

fun is_datetime_type :: "pyval \<Rightarrow> bool" where
  "is_datetime_type (Stamp t) = True"
| "is_datetime_type v = False"

fun strftime_item :: "builtins \<Rightarrow> string \<Rightarrow> pyval \<Rightarrow> pyerr + pyval" where
  "strftime_item B fmt (Stamp t) =
     (case strftime B t fmt of Inl e \<Rightarrow> Inl e | Inr r \<Rightarrow> Inr (Str r))"
| "strftime_item B fmt v = Inl AttributeError"

definition datetime_to_string :: "builtins \<Rightarrow> pyval col \<Rightarrow> string \<Rightarrow> pyerr + pyval col" where
  "datetime_to_string B series fmt =
     (let converted = series;
          datetime_mask = col_map is_datetime_type series
      in if col_any datetime_mask then
           (case strict_col (strftime_item B fmt) (select_mask series datetime_mask) of
              Inl e \<Rightarrow> Inl e
            | Inr formatted \<Rightarrow>
                Inr (where_other (setitem_mask converted datetime_mask formatted)
                       datetime_mask series))
         else Inr (where_other converted datetime_mask series))"

text \<open>\<^verbatim>\<open>str(x)\<close>: a string is its own text.\<close>

fun py_str :: "builtins \<Rightarrow> pyval \<Rightarrow> string" where
  "py_str B (Str t) = t"
| "py_str B v = str_of B v"

text \<open>\<^verbatim>\<open>converted.where(cond, numpy.nan)\<close>\<close>

definition where_nan :: "pyval col \<Rightarrow> bool col \<Rightarrow> pyval col" where
  "where_nan c cond = map (\<lambda>((l, x), (k, b)). (l, if b then x else NA)) (zip c cond)"

definition to_string :: "builtins \<Rightarrow> series \<Rightarrow> string \<Rightarrow> string \<Rightarrow> pyerr + series" where
  "to_string B s float_format datetime_format =
     (case numeric_to_string B (items (data s)) float_format of
        Inl e \<Rightarrow> Inl e
      | Inr converted \<Rightarrow>
          (case datetime_to_string B converted datetime_format of
             Inl e \<Rightarrow> Inl e
           | Inr converted \<Rightarrow>
               Inr \<lparr>name = name s,
                    data = ObjData (where_nan (col_map (\<lambda>v. Str (py_str B v)) converted)
                                      (notnull (items (data s))))\<rparr>))"

section \<open>validate_string\<close>

text \<open>The decimal text of an integer, as \<^verbatim>\<open>format\<close> writes it.\<close>

definition digit_char :: "nat \<Rightarrow> char" where
  "digit_char d = char_of (of_char CHR ''0'' + d)"

fun decimal_digits :: "nat \<Rightarrow> string \<Rightarrow> string" where
  "decimal_digits n acc =
     (if n < 10 then digit_char n # acc
      else decimal_digits (n div 10) (digit_char (n mod 10) # acc))"

definition format_int :: "int \<Rightarrow> string" where
  "format_int i =
     (if 0 \<le> i then decimal_digits (nat i) [] else CHR ''-'' # decimal_digits (nat (- i)) [])"

text \<open>\<^verbatim>\<open>repr\<close> of a string without quotes, backslashes and control characters.\<close>

definition repr_str :: "string \<Rightarrow> string" where
  "repr_str t = [CHR 0x27] @ t @ [CHR 0x27]"

text \<open>
  The \<^verbatim>\<open>.str\<close> accessor exists on a column of dtype \<^verbatim>\<open>object\<close> and raises
  \<open>AttributeError\<close> on a numeric or \<^verbatim>\<open>datetime64\<close> column.
\<close>

fun str_accessor :: "data \<Rightarrow> pyerr + pyval col" where
  "str_accessor (ObjData c) = Inr c"
| "str_accessor d = Inl AttributeError"

text \<open>The lengths of the strings of a column; missing rows have none.\<close>

fun str_lens :: "pyval col \<Rightarrow> int list" where
  "str_lens [] = []"
| "str_lens ((l, Str t) # c) = int (length t) # str_lens c"
| "str_lens ((l, v) # c) = str_lens c"

text \<open>
  \<^verbatim>\<open>validated.str.len().min() < min_length\<close>: the minimum skips the missing rows and
  is NaN when there is no other, and NaN is below nothing.
\<close>

definition len_min_below :: "data \<Rightarrow> int \<Rightarrow> pyerr + bool" where
  "len_min_below d min_length =
     (case str_accessor d of
        Inl e \<Rightarrow> Inl e
      | Inr c \<Rightarrow> Inr (str_lens c \<noteq> [] \<and> Min (set (str_lens c)) < min_length))"

definition len_max_above :: "data \<Rightarrow> int \<Rightarrow> pyerr + bool" where
  "len_max_above d max_length =
     (case str_accessor d of
        Inl e \<Rightarrow> Inl e
      | Inr c \<Rightarrow> Inr (str_lens c \<noteq> [] \<and> Max (set (str_lens c)) > max_length))"

text \<open>What a string test gives on a row; \<open>na\<close> is its value on a missing row.\<close>

fun str_test :: "(string \<Rightarrow> bool) \<Rightarrow> bool \<Rightarrow> pyval \<Rightarrow> bool" where
  "str_test p na (Str t) = p t"
| "str_test p na v = na"

text \<open>\<^verbatim>\<open>.str.contains(pattern, na=..., regex=True)\<close>\<close>

definition str_contains :: "builtins \<Rightarrow> data \<Rightarrow> string \<Rightarrow> bool \<Rightarrow> pyerr + bool col" where
  "str_contains B d pattern na =
     (case str_accessor d of
        Inl e \<Rightarrow> Inl e
      | Inr c \<Rightarrow>
          (case re_compile B pattern of
             Inl e \<Rightarrow> Inl e
           | Inr found \<Rightarrow> Inr (col_map (str_test found na) c)))"

text \<open>\<^verbatim>\<open>dropna()\<close> on a Series keeps its dtype.\<close>

fun data_dropna :: "data \<Rightarrow> data" where
  "data_dropna (NumData c) = NumData (filter (\<lambda>(l, v). v \<noteq> None) c)"
| "data_dropna (DtData c) = DtData (filter (\<lambda>(l, v). v \<noteq> None) c)"
| "data_dropna (ObjData c) = ObjData (filter (\<lambda>(l, v). v \<noteq> NA) c)"

text \<open>\<^verbatim>\<open>getattr(validated.dropna().str, 'is' + case)().all()\<close>\<close>

definition case_all :: "builtins \<Rightarrow> data \<Rightarrow> string \<Rightarrow> pyerr + bool" where
  "case_all B d c =
     (case str_accessor (data_dropna d) of
        Inl e \<Rightarrow> Inl e
      | Inr strings \<Rightarrow>
          (case str_method B (''is'' @ c) of
             None \<Rightarrow> Inl AttributeError
           | Some p \<Rightarrow> Inr (list_all (\<lambda>(l, v). str_test p True v) strings)))"

definition col_all :: "bool col \<Rightarrow> bool" where
  "col_all m = list_all snd m"

text \<open>\<open>map_sum\<close> on the value of a test that may raise.\<close>

definition on_result :: "('a \<Rightarrow> 'b) \<Rightarrow> pyerr + 'a \<Rightarrow> pyerr + 'b" where
  "on_result f r = (case r of Inl e \<Rightarrow> Inl e | Inr x \<Rightarrow> Inr (f x))"

text \<open>\<^verbatim>\<open>isin(values)\<close>\<close>

definition isin :: "pyval col \<Rightarrow> pyval list \<Rightarrow> bool col" where
  "isin c vs = col_map (\<lambda>v. v \<in> set vs) c"

text \<open>The patterns \<^verbatim>\<open>'^\s|\s$'\<close> and \<^verbatim>\<open>'\s'\<close>.\<close>

definition trailing_whitespace_pattern :: string where
  "trailing_whitespace_pattern =
     [CHR ''^'', CHR 0x5C, CHR ''s'', CHR ''|'', CHR 0x5C, CHR ''s'', CHR ''$'']"

definition whitespace_pattern :: string where
  "whitespace_pattern = [CHR 0x5C, CHR ''s'']"

text \<open>
  The checks of \<^verbatim>\<open>validate_string\<close> are statements \<^verbatim>\<open>if test: warnings.warn(message)\<close>
  one after the other. A test that raises ends the call; the notifications issued
  before it stay issued. A check whose parameter is \<^verbatim>\<open>None\<close> has the test
  \<open>False\<close> and no message.
\<close>

fun run_checks :: "((pyerr + bool) \<times> string) list \<Rightarrow> pyerr option \<times> string list" where
  "run_checks [] = (None, [])"
| "run_checks ((test, message) # checks) =
     (case test of
        Inl e \<Rightarrow> (Some e, [])
      | Inr b \<Rightarrow>
          (case run_checks checks of
             (r, issued) \<Rightarrow> (r, (if b then [message] else []) @ issued)))"

text \<open>\<^verbatim>\<open>a and b\<close>: the second test is not evaluated when the first is false.\<close>

definition and_then :: "bool \<Rightarrow> pyerr + bool \<Rightarrow> pyerr + bool" where
  "and_then a b = (if a then b else Inr False)"

definition string_checks ::
  "builtins \<Rightarrow> series \<Rightarrow> bool \<Rightarrow> bool \<Rightarrow> int option \<Rightarrow> int option \<Rightarrow> string option \<Rightarrow> bool
     \<Rightarrow> bool \<Rightarrow> bool \<Rightarrow> string option \<Rightarrow> string option \<Rightarrow> pyval list option
     \<Rightarrow> pyval list option \<Rightarrow> ((pyerr + bool) \<times> string) list" where
  "string_checks B validated nullable unique min_length max_length case_name newlines
      trailing_whitespace whitespace matching_regex non_matching_regex whitelist blacklist =
     [(and_then (\<not> nullable) (Inr (col_any (col_map (\<lambda>v. v = NA) (items (data validated))))),
       repr_name (name validated) @ '': NaN value(s)''),
      (and_then unique (Inr (col_any (duplicated (items (data validated))))),
       repr_name (name validated) @ '': duplicates''),
      (case min_length of
         None \<Rightarrow> (Inr False, [])
       | Some n \<Rightarrow>
           (len_min_below (data validated) n,
            repr_name (name validated) @ '': string(s) too short (< '' @ format_int n
              @ '' characters)'')),
      (case max_length of
         None \<Rightarrow> (Inr False, [])
       | Some n \<Rightarrow>
           (len_max_above (data validated) n,
            repr_name (name validated) @ '': string(s) too long (> '' @ format_int n
              @ '' characters)'')),
      (case case_name of
         None \<Rightarrow> (Inr False, [])
       | Some c \<Rightarrow>
           (and_then (c \<noteq> []) (on_result Not (case_all B (data validated) c)),
            repr_name (name validated) @ '': wrong case letter(s) (non-'' @ c @ ''case)'')),
      (and_then (\<not> newlines)
         (on_result col_any (str_contains B (data validated) (linesep B) False)),
       repr_name (name validated) @ '': newline character(s)''),
      (and_then (\<not> trailing_whitespace)
         (on_result col_any (str_contains B (data validated) trailing_whitespace_pattern False)),
       repr_name (name validated) @ '': trailing whitespace''),
      (and_then (\<not> whitespace)
         (on_result col_any (str_contains B (data validated) whitespace_pattern False)),
       repr_name (name validated) @ '': whitespace''),
      (case matching_regex of
         None \<Rightarrow> (Inr False, [])
       | Some r \<Rightarrow>
           (and_then (r \<noteq> [])
              (on_result (\<lambda>m. \<not> col_all m)
                 (str_contains B (data_dropna (data validated)) r True)),
            repr_name (name validated) @ '': mismatch(es) for '' @ [CHR 0x22]
              @ ''matching regular expression'' @ [CHR 0x22] @ '' ('' @ repr_str r @ '')'')),
      (case non_matching_regex of
         None \<Rightarrow> (Inr False, [])
       | Some r \<Rightarrow>
           (and_then (r \<noteq> [])
              (on_result col_any (str_contains B (data_dropna (data validated)) r False)),
            repr_name (name validated) @ '': match(es) for '' @ [CHR 0x22]
              @ ''non-matching regular expression'' @ [CHR 0x22] @ '' ('' @ repr_str r
              @ '')'')),
      (case whitelist of
         None \<Rightarrow> (Inr False, [])
       | Some vs \<Rightarrow>
           (Inr (\<not> col_all (isin (items (data_dropna (data validated))) vs)),
            repr_name (name validated) @ '': Value(s) not in whitelist'')),
      (case blacklist of
         None \<Rightarrow> (Inr False, [])
       | Some vs \<Rightarrow>
           (Inr (col_any (isin (items (data_dropna (data validated))) vs)),
            repr_name (name validated) @ '': Value(s) in blacklist''))]"

text \<open>\<^verbatim>\<open>not isinstance(x, str)\<close>\<close>

fun not_str :: "pyval \<Rightarrow> bool" where
  "not_str (Str t) = False"
| "not_str v = True"

definition validate_string ::
  "builtins \<Rightarrow> series \<Rightarrow> bool \<Rightarrow> bool \<Rightarrow> int option \<Rightarrow> int option \<Rightarrow> string option \<Rightarrow> bool
     \<Rightarrow> bool \<Rightarrow> bool \<Rightarrow> string option \<Rightarrow> string option \<Rightarrow> pyval list option
     \<Rightarrow> pyval list option \<Rightarrow> bool \<Rightarrow> series option outcome" where
  "validate_string B s nullable unique min_length max_length case_name newlines
      trailing_whitespace whitespace matching_regex non_matching_regex whitelist blacklist
      return_values =
     (case (if col_any (col_map not_str (items (data_dropna (data s))))
            then to_string B s ''%g'' ''%Y-%m-%d'' else Inr s) of
        Inl e \<Rightarrow> (Inl e, [])
      | Inr validated \<Rightarrow>
          (case run_checks
                  (string_checks B validated nullable unique min_length max_length case_name
                     newlines trailing_whitespace whitespace matching_regex non_matching_regex
                     whitelist blacklist) of
             (Some e, issued) \<Rightarrow> (Inl e, issued)
           | (None, issued) \<Rightarrow> (Inr (if return_values then Some validated else None), issued)))"

section \<open>The functions on a store of Series objects\<close>

text \<open>
  Series are objects: a store holds them, an address is a position in it. Of the pandas
  operations the module uses, item assignment writes into an object; every other one
  (\<^verbatim>\<open>copy\<close>, \<^verbatim>\<open>where\<close>, \<^verbatim>\<open>astype\<close>, the coercions) returns a new object. The
  functions below are the public functions with their Series arguments as addresses.
\<close>

type_synonym store = "series list"

text \<open>\<^verbatim>\<open>series.copy()\<close>\<close>

definition st_copy :: "nat \<Rightarrow> store \<Rightarrow> nat \<times> store" where
  "st_copy a h = (length h, h @ [h ! a])"

text \<open>A new object for the result of a pandas operation.\<close>

definition st_new :: "series \<Rightarrow> store \<Rightarrow> nat \<times> store" where
  "st_new s h = (length h, h @ [s])"

text \<open>\<^verbatim>\<open>converted[mask] = values\<close> writes into the object at the address.\<close>

definition st_setitem :: "nat \<Rightarrow> bool col \<Rightarrow> pyval col \<Rightarrow> store \<Rightarrow> store" where
  "st_setitem a msk vals h =
     h[a := (h ! a)\<lparr>data := ObjData (setitem_mask (items (data (h ! a))) msk vals)\<rparr>]"

text \<open>The rows of the object at an address.\<close>

definition st_rows :: "store \<Rightarrow> nat \<Rightarrow> pyval col" where
  "st_rows h a = items (data (h ! a))"

text \<open>
  \<^verbatim>\<open>_numeric_to_string\<close> and \<^verbatim>\<open>_datetime_to_string\<close>: \<open>converted\<close> is a copy, the
  item assignment writes into it, and \<open>series\<close> is read again afterwards for the
  result, which is a new object.
\<close>

definition numeric_to_string_st ::
  "builtins \<Rightarrow> nat \<Rightarrow> string \<Rightarrow> store \<Rightarrow> (pyerr + nat) \<times> store" where
  "numeric_to_string_st B series float_format h =
     (case st_copy series h of
        (converted, h1) \<Rightarrow>
          (let numeric_mask =
                 col_and (col_map is_number_type (st_rows h1 series)) (notnull (st_rows h1 series))
           in if col_any numeric_mask then
                (case strict_col (format_item B float_format)
                        (select_mask (st_rows h1 series) numeric_mask) of
                   Inl e \<Rightarrow> (Inl e, h1)
                 | Inr formatted \<Rightarrow>
                     (let h2 = st_setitem converted numeric_mask formatted h1 in
                      case st_new \<lparr>name = name (h2 ! converted),
                                   data = ObjData (where_other (st_rows h2 converted) numeric_mask
                                                     (st_rows h2 series))\<rparr> h2 of
                        (r, h3) \<Rightarrow> (Inr r, h3)))
              else
                (case st_new \<lparr>name = name (h1 ! converted),
                             data = ObjData (where_other (st_rows h1 converted) numeric_mask
                                               (st_rows h1 series))\<rparr> h1 of
                   (r, h2) \<Rightarrow> (Inr r, h2))))"

definition datetime_to_string_st ::
  "builtins \<Rightarrow> nat \<Rightarrow> string \<Rightarrow> store \<Rightarrow> (pyerr + nat) \<times> store" where
  "datetime_to_string_st B series fmt h =
     (case st_copy series h of
        (converted, h1) \<Rightarrow>
          (let datetime_mask = col_map is_datetime_type (st_rows h1 series)
           in if col_any datetime_mask then
                (case strict_col (strftime_item B fmt)
                        (select_mask (st_rows h1 series) datetime_mask) of
                   Inl e \<Rightarrow> (Inl e, h1)
                 | Inr formatted \<Rightarrow>
                     (let h2 = st_setitem converted datetime_mask formatted h1 in
                      case st_new \<lparr>name = name (h2 ! converted),
                                   data = ObjData (where_other (st_rows h2 converted) datetime_mask
                                                     (st_rows h2 series))\<rparr> h2 of
                        (r, h3) \<Rightarrow> (Inr r, h3)))
              else
                (case st_new \<lparr>name = name (h1 ! converted),
                             data = ObjData (where_other (st_rows h1 converted) datetime_mask
                                               (st_rows h1 series))\<rparr> h1 of
                   (r, h2) \<Rightarrow> (Inr r, h2))))"

text \<open>
  \<^verbatim>\<open>to_string\<close>: each of its four steps binds \<open>converted\<close> to a new object.
\<close>

definition to_string_st ::
  "builtins \<Rightarrow> nat \<Rightarrow> string \<Rightarrow> string \<Rightarrow> store \<Rightarrow> (pyerr + nat) \<times> store" where
  "to_string_st B series float_format datetime_format h =
     (case numeric_to_string_st B series float_format h of
        (Inl e, h1) \<Rightarrow> (Inl e, h1)
      | (Inr converted, h1) \<Rightarrow>
          (case datetime_to_string_st B converted datetime_format h1 of
             (Inl e, h2) \<Rightarrow> (Inl e, h2)
           | (Inr converted, h2) \<Rightarrow>
               (case st_new \<lparr>name = name (h2 ! converted),
                            data = ObjData (col_map (\<lambda>v. Str (py_str B v))
                                              (st_rows h2 converted))\<rparr> h2 of
                  (converted, h3) \<Rightarrow>
                    (case st_new \<lparr>name = name (h3 ! converted),
                                 data = ObjData (where_nan (st_rows h3 converted)
                                                   (notnull (st_rows h3 series)))\<rparr> h3 of
                       (converted, h4) \<Rightarrow> (Inr converted, h4)))))"

text \<open>The rows of a numeric column and of a \<^verbatim>\<open>datetime64\<close> column.\<close>

fun num_rows :: "data \<Rightarrow> number option col" where
  "num_rows (NumData c) = c"
| "num_rows d = []"

fun dt_rows :: "data \<Rightarrow> int option col" where
  "dt_rows (DtData c) = c"
| "dt_rows d = []"

text \<open>
  \<^verbatim>\<open>mask_nonconvertible\<close>: the coercion returns a new object, \<^verbatim>\<open>notnull\<close> is
  read from a copy.
\<close>

definition mask_nonconvertible_st ::
  "pandas \<Rightarrow> nat \<Rightarrow> string \<Rightarrow> string option \<Rightarrow> bool \<Rightarrow> store \<Rightarrow> (pyerr + bool col) \<times> store" where
  "mask_nonconvertible_st P series to_datatype datetime_format exact_date h =
     (if to_datatype = ''numeric'' then
        (case st_new \<lparr>name = name (h ! series),
                     data = NumData (col_map (lenient (numeric_of P)) (st_rows h series))\<rparr> h of
           (converted, h1) \<Rightarrow>
             (case st_copy series h1 of
                (copied, h2) \<Rightarrow>
                  (Inr (col_and (notnull (st_rows h2 copied))
                          (isnull (num_rows (data (h2 ! converted))))), h2)))
      else if to_datatype = ''datetime'' then
        (case st_new \<lparr>name = name (h ! series),
                     data = DtData (col_map
                       (lenient (datetime_of P
                          (default_dt_options\<lparr>format := datetime_format, exact := exact_date\<rparr>)))
                       (st_rows h series))\<rparr> h of
           (converted, h1) \<Rightarrow>
             (case st_copy series h1 of
                (copied, h2) \<Rightarrow>
                  (Inr (col_and (notnull (st_rows h2 copied))
                          (isnull (dt_rows (data (h2 ! converted))))), h2)))
      else (Inl ValueError, h))"

text \<open>
  \<^verbatim>\<open>validate_datetime\<close> and \<^verbatim>\<open>validate_numeric\<close>: \<open>converted\<close> is the new
  object of the coercion, or a copy of the input; the rest reads the two objects.
\<close>

definition validate_datetime_st ::
  "pandas \<Rightarrow> nat \<Rightarrow> bool \<Rightarrow> bool \<Rightarrow> string option \<Rightarrow> string option \<Rightarrow> string option \<Rightarrow> store
     \<Rightarrow> int result outcome \<times> store" where
  "validate_datetime_st P series nullable unique min_datetime max_datetime return_type h =
     (case (if \<not> is_datetime64_dtype (data (h ! series)) then
              st_new \<lparr>name = name (h ! series),
                      data = DtData (col_map (lenient (datetime_of P default_dt_options))
                                       (st_rows h series))\<rparr> h
            else st_copy series h) of
        (converted, h1) \<Rightarrow>
          (datetime_report P (h1 ! series) (dt_rows (data (h1 ! converted))) nullable unique
             min_datetime max_datetime return_type, h1))"

definition validate_numeric_st ::
  "pandas \<Rightarrow> nat \<Rightarrow> bool \<Rightarrow> bool \<Rightarrow> bool \<Rightarrow> number option \<Rightarrow> number option \<Rightarrow> string option
     \<Rightarrow> store \<Rightarrow> number result outcome \<times> store" where
  "validate_numeric_st P series nullable unique integer min_value max_value return_type h =
     (case (if \<not> is_number_dtype (data (h ! series)) then
              st_new \<lparr>name = name (h ! series),
                      data = NumData (col_map (lenient (numeric_of P)) (st_rows h series))\<rparr> h
            else st_copy series h) of
        (converted, h1) \<Rightarrow>
          (numeric_report (h1 ! series) (num_rows (data (h1 ! converted))) nullable unique
             integer min_value max_value return_type, h1))"

text \<open>\<^verbatim>\<open>validate_string\<close> returns the object \<open>validated\<close>, here its address.\<close>

definition validate_string_st ::
  "builtins \<Rightarrow> nat \<Rightarrow> bool \<Rightarrow> bool \<Rightarrow> int option \<Rightarrow> int option \<Rightarrow> string option \<Rightarrow> bool
     \<Rightarrow> bool \<Rightarrow> bool \<Rightarrow> string option \<Rightarrow> string option \<Rightarrow> pyval list option
     \<Rightarrow> pyval list option \<Rightarrow> bool \<Rightarrow> store \<Rightarrow> nat option outcome \<times> store" where
  "validate_string_st B series nullable unique min_length max_length case_name newlines
      trailing_whitespace whitespace matching_regex non_matching_regex whitelist blacklist
      return_values h =
     (case (if col_any (col_map not_str (items (data_dropna (data (h ! series)))))
            then to_string_st B series ''%g'' ''%Y-%m-%d'' h
            else (case st_copy series h of (validated, h1) \<Rightarrow> (Inr validated, h1))) of
        (Inl e, h1) \<Rightarrow> ((Inl e, []), h1)
      | (Inr validated, h1) \<Rightarrow>
          (case run_checks
                  (string_checks B (h1 ! validated) nullable unique min_length max_length
                     case_name newlines trailing_whitespace whitespace matching_regex
                     non_matching_regex whitelist blacklist) of
             (Some e, issued) \<Rightarrow> ((Inl e, issued), h1)
           | (None, issued) \<Rightarrow>
               ((Inr (if return_values then Some validated else None), issued), h1)))"

section \<open>Notions the properties are stated with\<close>

definition is_finite :: "number \<Rightarrow> bool" where
  "is_finite x = (x \<noteq> PosInf \<and> x \<noteq> NegInf)"

text \<open>A number that differs from its truncation to an integer.\<close>

definition is_fraction :: "number \<Rightarrow> bool" where
  "is_fraction x = (case x of Finite q \<Rightarrow> q \<noteq> of_int (trunc q) | _ \<Rightarrow> False)"












text \<open>A store after a call: the objects there before, unchanged, and new ones behind.\<close>

definition extends :: "store \<Rightarrow> store \<Rightarrow> bool" where
  "extends h h' = (length h \<le> length h' \<and> take (length h) h' = h)"

section \<open>A sample of the pandas parsers\<close>

text \<open>
  Small parsers with the behaviour of the pandas ones on decimal digits, to run the
  definitions on concrete columns: digits parse, other strings are rejected with
  \<open>ValueError\<close>, numbers and missing values pass, other objects are rejected with
  \<open>TypeError\<close>.
\<close>

definition digit_val :: "char \<Rightarrow> nat" where
  "digit_val c = of_char c - 48"

definition is_digit :: "char \<Rightarrow> bool" where
  "is_digit c = (48 \<le> (of_char c :: nat) \<and> (of_char c :: nat) \<le> 57)"

definition decimal_of :: "string \<Rightarrow> nat" where
  "decimal_of s = foldl (\<lambda>n c. 10 * n + digit_val c) 0 s"

fun sample_numeric_of :: "pyval \<Rightarrow> pyerr + number option" where
  "sample_numeric_of NA = Inr None"
| "sample_numeric_of (Num x) = Inr (Some x)"
| "sample_numeric_of (Bool b) = Inr (Some (Finite (if b then 1 else 0)))"
| "sample_numeric_of (Str s) =
     (if s \<noteq> [] \<and> list_all is_digit s then Inr (Some (Finite (of_nat (decimal_of s))))
      else Inl ValueError)"
| "sample_numeric_of (Stamp t) = Inl TypeError"
| "sample_numeric_of (Obj k) = Inl TypeError"

text \<open>The sample datetime parser reads digits as a count of nanoseconds.\<close>

fun sample_datetime_of :: "dt_options \<Rightarrow> pyval \<Rightarrow> pyerr + int option" where
  "sample_datetime_of opts NA = Inr None"
| "sample_datetime_of opts (Stamp t) = Inr (Some t)"
| "sample_datetime_of opts (Str s) =
     (if s \<noteq> [] \<and> list_all is_digit s then Inr (Some (int (decimal_of s)))
      else Inl ValueError)"
| "sample_datetime_of opts v = Inl TypeError"

definition sample_timestamp_of :: "string \<Rightarrow> pyerr + int" where
  "sample_timestamp_of s =
     (if s \<noteq> [] \<and> list_all is_digit s then Inr (int (decimal_of s)) else Inl ValueError)"

definition sample_pandas :: pandas where
  "sample_pandas =
     \<lparr>numeric_of = sample_numeric_of, datetime_of = sample_datetime_of,
      timestamp_of = sample_timestamp_of\<rparr>"

text \<open>
  Stand-ins for the Python primitives: \<open>%\<close> writes whole numbers in decimal (a
  fraction as a quotient) and, as Python does, rejects an infinity under \<^verbatim>\<open>%d\<close> with
  \<open>OverflowError\<close>; \<open>strftime\<close> writes the count of nanoseconds; the patterns are
  the two of the module or a literal text; \<open>islower\<close> and \<open>isupper\<close> read ASCII
  letters.
\<close>

definition sample_percent_format :: "string \<Rightarrow> number \<Rightarrow> pyerr + string" where
  "sample_percent_format float_format x =
     (case x of
        Finite q \<Rightarrow>
          if float_format = ''%d'' \<or> q = of_int \<lfloor>q\<rfloor> then Inr (format_int (trunc q))
          else Inr (format_int (fst (quotient_of q)) @ ''/'' @ format_int (snd (quotient_of q)))
      | PosInf \<Rightarrow> if float_format = ''%d'' then Inl OverflowError else Inr ''inf''
      | NegInf \<Rightarrow> if float_format = ''%d'' then Inl OverflowError else Inr ''-inf'')"

fun sample_str_of :: "pyval \<Rightarrow> string" where
  "sample_str_of NA = ''nan''"
| "sample_str_of (Str t) = t"
| "sample_str_of (Bool b) = (if b then ''True'' else ''False'')"
| "sample_str_of v = ''object''"

definition is_space :: "char \<Rightarrow> bool" where
  "is_space c = (c \<in> set [CHR 0x20, CHR 0x09, CHR 0x0A, CHR 0x0B, CHR 0x0C, CHR 0x0D])"

definition is_upper :: "char \<Rightarrow> bool" where
  "is_upper c = (65 \<le> (of_char c :: nat) \<and> (of_char c :: nat) \<le> 90)"

definition is_lower :: "char \<Rightarrow> bool" where
  "is_lower c = (97 \<le> (of_char c :: nat) \<and> (of_char c :: nat) \<le> 122)"

fun has_infix :: "string \<Rightarrow> string \<Rightarrow> bool" where
  "has_infix pat [] = (pat = [])"
| "has_infix pat (c # t) = (take (length pat) (c # t) = pat \<or> has_infix pat t)"

definition sample_re_compile :: "string \<Rightarrow> pyerr + (string \<Rightarrow> bool)" where
  "sample_re_compile pat =
     (if pat = whitespace_pattern then Inr (\<lambda>t. \<exists>c \<in> set t. is_space c)
      else if pat = trailing_whitespace_pattern then
        Inr (\<lambda>t. t \<noteq> [] \<and> (is_space (hd t) \<or> is_space (last t)))
      else if CHR ''('' \<in> set pat then Inl ReError
      else Inr (has_infix pat))"

definition sample_str_method :: "string \<Rightarrow> (string \<Rightarrow> bool) option" where
  "sample_str_method m =
     (if m = ''islower'' then Some (\<lambda>t. (\<exists>c \<in> set t. is_lower c) \<and> \<not> (\<exists>c \<in> set t. is_upper c))
      else if m = ''isupper'' then
        Some (\<lambda>t. (\<exists>c \<in> set t. is_upper c) \<and> \<not> (\<exists>c \<in> set t. is_lower c))
      else None)"

definition sample_builtins :: builtins where
  "sample_builtins =
     \<lparr>percent_format = sample_percent_format,
      strftime = (\<lambda>t fmt. Inr (format_int t)),
      str_of = sample_str_of,
      str_method = sample_str_method,
      re_compile = sample_re_compile,
      linesep = [CHR 0x0A]\<rparr>"

section \<open>Properties of mask_nonconvertible\<close>

lemma index_col_map [simp]: "index (col_map f c) = index c"
  by (simp add: index_def col_map_def comp_def)

lemma length_col_map [simp]: "length (col_map f c) = length c"
  by (simp add: col_map_def)

lemma col_and_col_map:
  "col_and (col_map f c) (col_map g c) = col_map (\<lambda>v. f v \<and> g v) c"
  by (induction c) (auto simp: col_and_def col_map_def)

lemma col_map_col_map: "col_map f (col_map g c) = col_map (\<lambda>v. f (g v)) c"
  by (simp add: col_map_def comp_def apsnd_def map_prod_def split_def)

lemma nonconvertible_rows:
  "col_and (notnull c) (isnull (col_map (lenient f) c))
     = col_map (\<lambda>v. v \<noteq> NA \<and> lenient f v = None) c"
  by (simp add: notnull_def isnull_def col_map_col_map col_and_col_map)

text \<open>
  Claim C1. For the target types \<open>numeric\<close> and \<open>datetime\<close> the mask has the rows
  and the index labels of the column, and a row is true exactly when its value is not
  missing and its lenient coercion is missing; any other target type raises
  \<open>ValueError\<close>.
\<close>

theorem mask_nonconvertible_spec:
  "(to_datatype = ''numeric'' \<longrightarrow>
      mask_nonconvertible P s to_datatype datetime_format exact_date =
        Inr (col_map (\<lambda>v. v \<noteq> NA \<and> lenient (numeric_of P) v = None) (items (data s))))
   \<and> (to_datatype = ''datetime'' \<longrightarrow>
      mask_nonconvertible P s to_datatype datetime_format exact_date =
        Inr (col_map (\<lambda>v. v \<noteq> NA \<and>
               lenient (datetime_of P
                 (default_dt_options\<lparr>format := datetime_format, exact := exact_date\<rparr>)) v = None)
             (items (data s))))
   \<and> (to_datatype \<noteq> ''numeric'' \<and> to_datatype \<noteq> ''datetime'' \<longrightarrow>
      mask_nonconvertible P s to_datatype datetime_format exact_date = Inl ValueError)"
  by (simp add: mask_nonconvertible_def nonconvertible_rows)

theorem mask_nonconvertible_spec_witness:
  "mask_nonconvertible sample_pandas
      \<lparr>name = None, data = ObjData [(0, Str ''1''), (1, Str ''x''), (2, NA)]\<rparr>
      ''numeric'' None True = Inr [(0, False), (1, True), (2, False)]
   \<and> mask_nonconvertible sample_pandas
      \<lparr>name = None, data = ObjData [(0, Str ''1''), (1, Str ''x''), (2, NA)]\<rparr>
      ''datetime'' None True = Inr [(0, False), (1, True), (2, False)]
   \<and> mask_nonconvertible sample_pandas
      \<lparr>name = None, data = ObjData [(0, Str ''1''), (1, Str ''x''), (2, NA)]\<rparr>
      ''integer'' None True = Inl ValueError"
  using mask_nonconvertible_spec [of "''numeric''" sample_pandas
      "\<lparr>name = None, data = ObjData [(0, Str ''1''), (1, Str ''x''), (2, NA)]\<rparr>" None True]
    mask_nonconvertible_spec [of "''datetime''" sample_pandas
      "\<lparr>name = None, data = ObjData [(0, Str ''1''), (1, Str ''x''), (2, NA)]\<rparr>" None True]
    mask_nonconvertible_spec [of "''integer''" sample_pandas
      "\<lparr>name = None, data = ObjData [(0, Str ''1''), (1, Str ''x''), (2, NA)]\<rparr>" None True]
  by (simp add: col_map_def lenient_def sample_pandas_def is_digit_def decimal_of_def
        digit_val_def)

section \<open>Properties of the tolerant coercers\<close>


lemma strict_col_total:
  "(\<forall>(l, v) \<in> set c. \<exists>r. f v = Inr r) \<Longrightarrow> \<exists>rs. strict_col f c = Inr rs"
  by (induction c) (auto split: sum.splits)

lemma strict_col_id:
  "(\<forall>x. f (g x) = Inr x) \<Longrightarrow> strict_col f (col_map g c) = Inr c"
  by (induction c) (auto simp: col_map_def)





lemma sample_numeric_contract: "numeric_of sample_pandas (num_item x) = Inr x"
  by (cases x) (simp_all add: sample_pandas_def)

lemma sample_datetime_contract: "datetime_of sample_pandas opts (dt_item x) = Inr x"
  by (cases x) (simp_all add: sample_pandas_def)

text \<open>
  Claim C8. A column that already has the target dtype is copied by the coercion step
  of the validators: same rows, same labels. When the strict parser returns numbers
  (timestamps) and missing values as they are, \<open>to_numeric\<close> (\<open>to_datetime\<close>) returns
  such a column unchanged and notifies nothing.
\<close>

theorem coercion_idempotent:
  "(is_number_dtype (data s) \<longrightarrow>
      col_map num_item (converted_numeric P (data s)) = items (data s)
      \<and> ((\<forall>x. numeric_of P (num_item x) = Inr x) \<longrightarrow>
           to_numeric P (Column s) = (Inr (CColumn (name s) (converted_numeric P (data s))), [])))
   \<and> (is_datetime64_dtype (data s) \<longrightarrow>
      col_map dt_item (converted_datetime P (data s)) = items (data s)
      \<and> ((\<forall>x. datetime_of P opts (dt_item x) = Inr x) \<longrightarrow>
           to_datetime P (Column s) opts coerce unit idf
             = (Inr (CColumn (name s) (converted_datetime P (data s))), [])))"
  by (cases "data s") (auto simp: to_numeric_def to_datetime_def strict_col_id)

theorem coercion_idempotent_witness:
  "is_number_dtype (NumData [(0, Some (Finite 3)), (1, None)])
   \<and> (\<forall>x. numeric_of sample_pandas (num_item x) = Inr x)
   \<and> converted_numeric sample_pandas (NumData [(0, Some (Finite 3)), (1, None)])
       = [(0, Some (Finite 3)), (1, None)]
   \<and> to_numeric sample_pandas
        (Column \<lparr>name = None, data = NumData [(0, Some (Finite 3)), (1, None)]\<rparr>)
       = (Inr (CColumn None [(0, Some (Finite 3)), (1, None)]), [])
   \<and> is_datetime64_dtype (DtData [(0, Some 7), (1, None)])
   \<and> (\<forall>x. datetime_of sample_pandas default_dt_options (dt_item x) = Inr x)
   \<and> to_datetime sample_pandas
        (Column \<lparr>name = None, data = DtData [(0, Some 7), (1, None)]\<rparr>)
        default_dt_options None ''ns'' False
       = (Inr (CColumn None [(0, Some 7), (1, None)]), [])"
  using coercion_idempotent [of "\<lparr>name = None, data = NumData [(0, Some (Finite 3)), (1, None)]\<rparr>"
      sample_pandas default_dt_options None "''ns''" False]
    coercion_idempotent [of "\<lparr>name = None, data = DtData [(0, Some 7), (1, None)]\<rparr>"
      sample_pandas default_dt_options None "''ns''" False]
  by (simp add: sample_numeric_contract sample_datetime_contract)

section \<open>Properties of validate_numeric\<close>

text \<open>
  Claim C3. On the column \<open>["1", "2", "x", None]\<close>, with a parser that accepts
  \<open>"1"\<close> and \<open>"2"\<close> and rejects \<open>"x"\<close>, \<open>validate_numeric\<close> with
  \<open>nullable=True\<close> builds the nonconvertible mask \<open>[F, F, T, F]\<close>, notifies the
  message with the fragment that names datetime, and returns \<open>[F, F, T, F]\<close> as
  \<open>mask_series\<close>.
\<close>

theorem validate_numeric_example:
  "lenient (numeric_of P) (Str ''1'') \<noteq> None \<and> lenient (numeric_of P) (Str ''2'') \<noteq> None
     \<and> lenient (numeric_of P) (Str ''x'') = None \<longrightarrow>
   numeric_masks
       \<lparr>name = n, data = ObjData [(0, Str ''1''), (1, Str ''2''), (2, Str ''x''), (3, NA)]\<rparr>
       (converted_numeric P (ObjData [(0, Str ''1''), (1, Str ''2''), (2, Str ''x''), (3, NA)]))
       True False False None None
     = Inr [(''nonconvertible'', [(0, False), (1, False), (2, True), (3, False)])]
   \<and> validate_numeric P
       \<lparr>name = n, data = ObjData [(0, Str ''1''), (1, Str ''2''), (2, Str ''x''), (3, NA)]\<rparr>
       True False False None None (Some ''mask_series'')
     = (Inr (RMaskSeries [(0, False), (1, False), (2, True), (3, False)]),
        [repr_name n @ '': Value(s) not converted to datetime set as NaT.''])"
  by (simp add: validate_numeric_def numeric_report_def numeric_masks_def numeric_bound_mask_def col_map_def
        col_and_def notnull_def isnull_def col_any_def numeric_error_info_def
        validation_warning_def select_return_def concat_columns_def union_index_def
        index_def frame_any_def)

theorem validate_numeric_example_witness:
  "lenient (numeric_of sample_pandas) (Str ''1'') \<noteq> None
   \<and> lenient (numeric_of sample_pandas) (Str ''2'') \<noteq> None
   \<and> lenient (numeric_of sample_pandas) (Str ''x'') = None
   \<and> validate_numeric sample_pandas
       \<lparr>name = None, data = ObjData [(0, Str ''1''), (1, Str ''2''), (2, Str ''x''), (3, NA)]\<rparr>
       True False False None None (Some ''mask_series'')
     = (Inr (RMaskSeries [(0, False), (1, False), (2, True), (3, False)]),
        [''None: Value(s) not converted to datetime set as NaT.''])"
  using validate_numeric_example [of sample_pandas None]
  by (simp add: sample_pandas_def lenient_def is_digit_def decimal_of_def digit_val_def)

text \<open>
  Claim C5 fails on the code. With \<open>min_value=0\<close> the test \<^verbatim>\<open>if min_value:\<close> is
  false: the value \<open>-1\<close> is below the bound, and the mask frame has no \<open>too_low\<close>
  column and nothing is notified.
\<close>

theorem validate_numeric_zero_bound:
  "num_less (Finite (- 1)) (Finite 0)
   \<and> validate_numeric sample_pandas
        \<lparr>name = Some ''n'', data = NumData [(0, Some (Finite (- 1)))]\<rparr>
        True False False (Some (Finite 0)) None (Some ''mask_frame'')
      = (Inr (RFrame \<lparr>columns = [''nonconvertible''], rows = [(0, [Some False])]\<rparr>), [])"
  by (simp add: validate_numeric_def numeric_report_def numeric_masks_def numeric_bound_mask_def col_map_def
        col_and_def notnull_def isnull_def col_any_def numeric_error_info_def
        validation_warning_def select_return_def concat_columns_def union_index_def
        index_def frame_any_def)

lemma py_int_Inl: "py_int x = Inl e \<Longrightarrow> e = OverflowError"
  by (cases x) auto

lemma strict_py_int_Inl: "strict_col py_int c = Inl e \<Longrightarrow> e = OverflowError"
  by (induction c) (auto split: sum.splits dest: py_int_Inl)

lemma strict_py_int_Inr:
  "strict_col py_int c = Inr ints \<Longrightarrow>
     (\<forall>(l, x) \<in> set c. is_finite x) \<and>
     col_any (map (\<lambda>((l, x), (k, i)). (l, x \<noteq> Finite (of_int i))) (zip c ints))
       = (\<exists>(l, x) \<in> set c. is_fraction x)"
proof (induction c arbitrary: ints)
  case Nil
  then show ?case by (simp add: col_any_def)
next
  case (Cons a c)
  obtain l x where a: "a = (l, x)" by (cases a)
  from Cons.prems a obtain i ints' where
    i: "py_int x = Inr i" and r: "strict_col py_int c = Inr ints'" and e: "ints = (l, i) # ints'"
    by (auto split: sum.splits)
  from i obtain q where q: "x = Finite q" "i = trunc q" by (cases x) auto
  from Cons.IH [OF r] a e q show ?case
    by (auto simp: col_any_def is_finite_def is_fraction_def)
qed

lemma strict_py_int_finite:
  "(\<forall>(l, x) \<in> set c. is_finite x) \<Longrightarrow> \<exists>ints. strict_col py_int c = Inr ints"
proof (rule strict_col_total, clarify)
  fix l x assume "\<forall>(l, x) \<in> set c. is_finite x" "(l, x) \<in> set c"
  then have "is_finite x" by auto
  then show "\<exists>r. py_int x = Inr r" by (cases x) (auto simp: is_finite_def)
qed

lemma noninteger_any_finite:
  "(\<forall>(l, x) \<in> set c. is_finite x) \<Longrightarrow>
     noninteger_any c = Inr (\<exists>(l, x) \<in> set c. is_fraction x)"
  using strict_py_int_finite [of c] strict_py_int_Inr [of c]
  by (auto simp: noninteger_any_def)

lemma noninteger_any_infinite:
  "\<not> (\<forall>(l, x) \<in> set c. is_finite x) \<Longrightarrow> noninteger_any c = Inl OverflowError"
  using strict_py_int_Inr [of c] strict_py_int_Inl [of c]
  by (auto simp: noninteger_any_def split: sum.splits)

text \<open>
  Claim C7. With \<open>integer=True\<close> the \<open>noninteger\<close> mask has one value at every label
  of the column: true exactly when some coerced value that is not missing differs from
  its truncation. The mask is built whenever no coerced value is infinite; an infinite
  one makes \<^verbatim>\<open>int\<close> raise \<open>OverflowError\<close>, and the call ends with it.
\<close>

theorem noninteger_mask_column_wide:
  "((\<forall>(l, x) \<in> set (dropna (converted_numeric P (data s))). is_finite x) \<longrightarrow>
      (\<exists>masks.
         numeric_masks s (converted_numeric P (data s)) nullable unique True min_value max_value
           = Inr masks
         \<and> map_of masks ''noninteger''
           = Some (broadcast (\<exists>(l, x) \<in> set (dropna (converted_numeric P (data s))). is_fraction x)
                     (index (items (data s))))))
   \<and> (\<not> (\<forall>(l, x) \<in> set (dropna (converted_numeric P (data s))). is_finite x) \<longrightarrow>
        validate_numeric P s nullable unique True min_value max_value return_type
          = (Inl OverflowError, []))"
  by (simp add: numeric_masks_def validate_numeric_def numeric_report_def noninteger_any_finite
        noninteger_any_infinite)

lemma trunc_5_2: "trunc (5 / 2) = 2"
  by (simp add: trunc_def floor_eq_iff)

theorem noninteger_mask_column_wide_witness:
  "(\<exists>masks.
        numeric_masks \<lparr>name = None,
            data = NumData [(0, Some (Finite (5 / 2))), (1, None), (2, Some (Finite 4))]\<rparr>
          [(0, Some (Finite (5 / 2))), (1, None), (2, Some (Finite 4))]
          True False True None None = Inr masks
        \<and> map_of masks ''noninteger'' = Some [(0, True), (1, True), (2, True)])
   \<and> validate_numeric sample_pandas \<lparr>name = None, data = NumData [(0, Some PosInf)]\<rparr>
        True False True None None (Some ''values'') = (Inl OverflowError, [])"
  using noninteger_mask_column_wide [of sample_pandas
      "\<lparr>name = None, data = NumData [(0, Some (Finite (5 / 2))), (1, None), (2, Some (Finite 4))]\<rparr>"
      True False None None "Some ''values''"]
    noninteger_mask_column_wide [of sample_pandas
      "\<lparr>name = None, data = NumData [(0, Some PosInf)]\<rparr>" True False None None "Some ''values''"]
  by (simp add: is_finite_def is_fraction_def trunc_5_2 broadcast_def index_def col_map_def)

section \<open>Properties of the mask frame and of the returned views\<close>


lemma index_notnull [simp]: "index (notnull c) = index c"
  by (simp add: notnull_def)

lemma index_isnull [simp]: "index (isnull c) = index c"
  by (simp add: isnull_def)

lemma index_dropna_subset: "set (index (dropna c)) \<subseteq> set (index c)"
  by (induction c rule: dropna.induct) (auto simp: index_def)

lemma distinct_index_dropna: "distinct (index c) \<Longrightarrow> distinct (index (dropna c))"
  using index_dropna_subset
  by (induction c rule: dropna.induct) (auto simp: index_def)

lemma index_duplicated_after: "index (duplicated_after seen c) = index c"
  by (induction seen c rule: duplicated_after.induct) (auto simp: index_def)

lemma index_duplicated [simp]: "index (duplicated c) = index c"
  by (simp add: duplicated_def index_duplicated_after)

lemma index_broadcast [simp]: "index (broadcast b idx) = idx"
  by (simp add: broadcast_def index_def comp_def)














lemma dropna_ok:
  "distinct (index c) \<Longrightarrow> index c = idx \<Longrightarrow>
     set (index (dropna c)) \<subseteq> set idx \<and> distinct (index (dropna c))"
  using index_dropna_subset [of c] distinct_index_dropna [of c] by simp




















section \<open>Properties of to_string\<close>





















lemma extends_refl [simp]: "extends h h"
  by (simp add: extends_def)

lemma extends_trans:
  assumes "extends h h1" and "extends h1 h2"
  shows "extends h h2"
proof -
  from assms have l: "length h \<le> length h1" "length h1 \<le> length h2"
    and t: "take (length h) h1 = h" "take (length h1) h2 = h1"
    by (simp_all add: extends_def)
  have "take (length h) h2 = take (length h) (take (length h1) h2)"
    using l by (simp add: min_def)
  with t have "take (length h) h2 = h" by simp
  with l show ?thesis by (simp add: extends_def)
qed

lemma extends_nth: "extends h h' \<Longrightarrow> a < length h \<Longrightarrow> h' ! a = h ! a"
  unfolding extends_def by (metis nth_take)

lemma extends_append [simp]: "extends h (h @ xs)"
  by (simp add: extends_def)

lemma extends_copy_setitem_new [simp]:
  "extends h ((h @ [x])[length h := y] @ zs)"
  by (simp add: extends_def)

lemma numeric_to_string_st_extends: "extends h (snd (numeric_to_string_st B a ff h))"
  by (simp add: numeric_to_string_st_def st_copy_def st_new_def st_setitem_def Let_def
        split: sum.splits)

lemma datetime_to_string_st_extends: "extends h (snd (datetime_to_string_st B a fmt h))"
  by (simp add: datetime_to_string_st_def st_copy_def st_new_def st_setitem_def Let_def
        split: sum.splits)

lemma to_string_st_extends: "extends h (snd (to_string_st B a ff df h))"
proof -
  obtain r1 h1 where n: "numeric_to_string_st B a ff h = (r1, h1)" by force
  with numeric_to_string_st_extends [of h B a ff] have e1: "extends h h1" by simp
  show ?thesis
  proof (cases r1)
    case (Inl e)
    with n e1 show ?thesis by (simp add: to_string_st_def)
  next
    case (Inr c)
    obtain r2 h2 where d: "datetime_to_string_st B c df h1 = (r2, h2)" by force
    with datetime_to_string_st_extends [of h1 B c df] have "extends h1 h2" by simp
    with e1 have e2: "extends h h2" by (rule extends_trans)
    show ?thesis
    proof (cases r2)
      case (Inl e)
      with n Inr d e2 show ?thesis by (simp add: to_string_st_def)
    next
      case r: (Inr c2)
      have "extends h2 (h2 @ [x, y])" for x y by simp
      with e2 have "extends h (h2 @ [x, y])" for x y by (rule extends_trans)
      with n Inr d r show ?thesis by (simp add: to_string_st_def st_new_def)
    qed
  qed
qed

lemma numeric_to_string_st_value:
  assumes "a < length h"
  shows "case numeric_to_string B (items (data (h ! a))) ff of
           Inl e \<Rightarrow> fst (numeric_to_string_st B a ff h) = Inl e
         | Inr c \<Rightarrow>
             (\<exists>r. fst (numeric_to_string_st B a ff h) = Inr r
                \<and> r < length (snd (numeric_to_string_st B a ff h))
                \<and> snd (numeric_to_string_st B a ff h) ! r = \<lparr>name = name (h ! a), data = ObjData c\<rparr>)"
  using assms
  by (simp add: numeric_to_string_def numeric_to_string_st_def st_copy_def st_new_def
        st_setitem_def st_rows_def Let_def nth_append split: sum.splits)

lemma datetime_to_string_st_value:
  assumes "a < length h"
  shows "case datetime_to_string B (items (data (h ! a))) fmt of
           Inl e \<Rightarrow> fst (datetime_to_string_st B a fmt h) = Inl e
         | Inr c \<Rightarrow>
             (\<exists>r. fst (datetime_to_string_st B a fmt h) = Inr r
                \<and> r < length (snd (datetime_to_string_st B a fmt h))
                \<and> snd (datetime_to_string_st B a fmt h) ! r = \<lparr>name = name (h ! a), data = ObjData c\<rparr>)"
  using assms
  by (simp add: datetime_to_string_def datetime_to_string_st_def st_copy_def st_new_def
        st_setitem_def st_rows_def Let_def nth_append split: sum.splits)

lemma to_string_st_value:
  assumes a: "a < length h"
  shows "case to_string B (h ! a) ff df of
           Inl e \<Rightarrow> fst (to_string_st B a ff df h) = Inl e
         | Inr s' \<Rightarrow>
             (\<exists>r. fst (to_string_st B a ff df h) = Inr r
                \<and> r < length (snd (to_string_st B a ff df h))
                \<and> snd (to_string_st B a ff df h) ! r = s')"
proof -
  obtain r1 h1 where n: "numeric_to_string_st B a ff h = (r1, h1)" by force
  from numeric_to_string_st_extends [of h B a ff] n have e1: "extends h h1" by simp
  show ?thesis
  proof (cases "numeric_to_string B (items (data (h ! a))) ff")
    case (Inl e)
    with numeric_to_string_st_value [OF a, of B ff] n show ?thesis
      by (simp add: to_string_def to_string_st_def)
  next
    case (Inr c1)
    with numeric_to_string_st_value [OF a, of B ff] n obtain a1 where
      r1: "r1 = Inr a1" and a1: "a1 < length h1"
      and v1: "h1 ! a1 = \<lparr>name = name (h ! a), data = ObjData c1\<rparr>"
      by auto
    obtain r2 h2 where d: "datetime_to_string_st B a1 df h1 = (r2, h2)" by force
    from datetime_to_string_st_extends [of h1 B a1 df] d have e2: "extends h1 h2" by simp
    from e1 e2 have e12: "extends h h2" by (rule extends_trans)
    show ?thesis
    proof (cases "datetime_to_string B c1 df")
      case (Inl e)
      with datetime_to_string_st_value [OF a1, of B df] v1 d n r1 Inr show ?thesis
        by (simp add: to_string_def to_string_st_def)
    next
      case c2: (Inr c2)
      with datetime_to_string_st_value [OF a1, of B df] v1 d obtain a2 where
        r2: "r2 = Inr a2" and a2: "a2 < length h2"
        and v2: "h2 ! a2 = \<lparr>name = name (h ! a), data = ObjData c2\<rparr>"
        by auto
      from e12 a have la: "a < length h2" and ha: "h2 ! a = h ! a"
        by (auto simp: extends_def dest: extends_nth [OF e12])
      from n r1 d r2 a2 v2 la ha Inr c2 show ?thesis
        by (simp add: to_string_def to_string_st_def st_new_def st_rows_def nth_append)
    qed
  qed
qed




section \<open>Properties of the notifications\<close>


lemma run_checks_no_error:
  "\<forall>(t, m) \<in> set checks. \<exists>b. t = Inr b \<Longrightarrow>
     run_checks checks = (None, map snd (filter (\<lambda>(t, m). t = Inr True) checks))"
proof (induction checks)
  case Nil
  then show ?case by simp
next
  case (Cons a checks)
  obtain t m where a: "a = (t, m)" by (cases a)
  with Cons.prems obtain b where b: "t = Inr b" by auto
  from Cons have "run_checks checks = (None, map snd (filter (\<lambda>(t, m). t = Inr True) checks))"
    by simp
  with a b show ?case by simp
qed

lemma string_checks_length:
  "length (string_checks B v nullable unique min_length max_length case_name newlines
     trailing_whitespace whitespace matching_regex non_matching_regex whitelist blacklist) = 12"
  by (simp add: string_checks_def)







lemma validation_warning_length: "length (validation_warning s msg_list) \<le> 1"
  by (simp add: validation_warning_def)








section \<open>Properties of the store\<close>

lemma mask_nonconvertible_st_extends:
  "extends h (snd (mask_nonconvertible_st P a to_datatype datetime_format exact_date h))"
  by (simp add: mask_nonconvertible_st_def st_new_def st_copy_def extends_def)

lemma mask_nonconvertible_st_value:
  "a < length h \<Longrightarrow>
     fst (mask_nonconvertible_st P a to_datatype datetime_format exact_date h)
       = mask_nonconvertible P (h ! a) to_datatype datetime_format exact_date"
  by (simp add: mask_nonconvertible_st_def mask_nonconvertible_def st_new_def st_copy_def
        st_rows_def nth_append)

lemma validate_numeric_st_extends:
  "extends h (snd (validate_numeric_st P a nullable unique integer min_value max_value
     return_type h))"
  by (simp add: validate_numeric_st_def st_new_def st_copy_def)

lemma validate_numeric_st_value:
  "a < length h \<Longrightarrow>
     fst (validate_numeric_st P a nullable unique integer min_value max_value return_type h)
       = validate_numeric P (h ! a) nullable unique integer min_value max_value return_type"
  by (cases "data (h ! a)")
     (simp_all add: validate_numeric_st_def validate_numeric_def st_new_def st_copy_def
        st_rows_def nth_append)

lemma validate_datetime_st_extends:
  "extends h (snd (validate_datetime_st P a nullable unique min_datetime max_datetime
     return_type h))"
  by (simp add: validate_datetime_st_def st_new_def st_copy_def)

lemma validate_datetime_st_value:
  "a < length h \<Longrightarrow>
     fst (validate_datetime_st P a nullable unique min_datetime max_datetime return_type h)
       = validate_datetime P (h ! a) nullable unique min_datetime max_datetime return_type"
  by (cases "data (h ! a)")
     (simp_all add: validate_datetime_st_def validate_datetime_def st_new_def st_copy_def
        st_rows_def nth_append)

lemma validate_string_st_extends:
  "extends h (snd (validate_string_st B a nullable unique min_length max_length case_name
     newlines trailing_whitespace whitespace matching_regex non_matching_regex whitelist
     blacklist return_values h))"
proof -
  obtain r h1 where t: "to_string_st B a ''%g'' ''%Y-%m-%d'' h = (r, h1)" by force
  with to_string_st_extends [of h B a "''%g''" "''%Y-%m-%d''"] have "extends h h1" by simp
  with t show ?thesis
    by (auto simp: validate_string_st_def st_copy_def split: sum.splits prod.splits
          option.splits)
qed

lemma validate_string_st_issued:
  assumes a: "a < length h"
  shows "snd (fst (validate_string_st B a nullable unique min_length max_length case_name
     newlines trailing_whitespace whitespace matching_regex non_matching_regex whitelist
     blacklist return_values h))
   = snd (validate_string B (h ! a) nullable unique min_length max_length case_name
     newlines trailing_whitespace whitespace matching_regex non_matching_regex whitelist
     blacklist return_values)"
proof (cases "col_any (col_map not_str (items (data_dropna (data (h ! a)))))")
  case False
  with a show ?thesis
    by (simp add: validate_string_st_def validate_string_def st_copy_def nth_append
          split: prod.splits option.splits)
next
  case True
  obtain r h1 where t: "to_string_st B a ''%g'' ''%Y-%m-%d'' h = (r, h1)" by force
  show ?thesis
  proof (cases "to_string B (h ! a) ''%g'' ''%Y-%m-%d''")
    case (Inl e)
    with to_string_st_value [OF a, of B "''%g''" "''%Y-%m-%d''"] t True show ?thesis
      by (simp add: validate_string_st_def validate_string_def)
  next
    case (Inr v)
    with to_string_st_value [OF a, of B "''%g''" "''%Y-%m-%d''"] t obtain ra where
      "r = Inr ra" "h1 ! ra = v" by auto
    with t True Inr show ?thesis
      by (simp add: validate_string_st_def validate_string_def
            split: prod.splits option.splits)
  qed
qed

text \<open>
  Claim C10. A call of a public function on the Series at an address of the store
  leaves every object that was in the store as it was, the input among them (its values,
  its index labels, its name); what the call makes is put behind them. The call returns
  what the function on values returns for the input (for \<open>validate_string\<close>: issues the
  same notifications).
\<close>

theorem inputs_not_modified:
  "a < length h \<longrightarrow>
     (extends h (snd (mask_nonconvertible_st P a to_datatype datetime_format exact_date h))
      \<and> snd (mask_nonconvertible_st P a to_datatype datetime_format exact_date h) ! a = h ! a
      \<and> fst (mask_nonconvertible_st P a to_datatype datetime_format exact_date h)
          = mask_nonconvertible P (h ! a) to_datatype datetime_format exact_date)
   \<and> (extends h (snd (to_string_st B a float_format strftime_format h))
      \<and> snd (to_string_st B a float_format strftime_format h) ! a = h ! a)
   \<and> (extends h (snd (validate_datetime_st P a nullable unique min_datetime max_datetime
                        return_type h))
      \<and> snd (validate_datetime_st P a nullable unique min_datetime max_datetime
                return_type h) ! a = h ! a
      \<and> fst (validate_datetime_st P a nullable unique min_datetime max_datetime return_type h)
          = validate_datetime P (h ! a) nullable unique min_datetime max_datetime return_type)
   \<and> (extends h (snd (validate_numeric_st P a nullable unique integer min_value max_value
                        return_type h))
      \<and> snd (validate_numeric_st P a nullable unique integer min_value max_value
                return_type h) ! a = h ! a
      \<and> fst (validate_numeric_st P a nullable unique integer min_value max_value return_type h)
          = validate_numeric P (h ! a) nullable unique integer min_value max_value return_type)
   \<and> (extends h (snd (validate_string_st B a nullable unique min_length max_length case_name
                        newlines trailing_whitespace whitespace matching_regex
                        non_matching_regex whitelist blacklist return_values h))
      \<and> snd (validate_string_st B a nullable unique min_length max_length case_name
                newlines trailing_whitespace whitespace matching_regex
                non_matching_regex whitelist blacklist return_values h) ! a = h ! a
      \<and> snd (fst (validate_string_st B a nullable unique min_length max_length case_name
                     newlines trailing_whitespace whitespace matching_regex
                     non_matching_regex whitelist blacklist return_values h))
          = snd (validate_string B (h ! a) nullable unique min_length max_length case_name
                   newlines trailing_whitespace whitespace matching_regex
                   non_matching_regex whitelist blacklist return_values))"
  by (simp add: mask_nonconvertible_st_extends mask_nonconvertible_st_value
        to_string_st_extends validate_datetime_st_extends validate_datetime_st_value
        validate_numeric_st_extends validate_numeric_st_value validate_string_st_extends
        validate_string_st_issued extends_nth)

theorem inputs_not_modified_witness:
  "snd (mask_nonconvertible_st sample_pandas 0 ''numeric'' None True
          [\<lparr>name = None, data = ObjData [(0, Str ''a''), (1, Num (Finite 12))]\<rparr>]) ! 0
      = \<lparr>name = None, data = ObjData [(0, Str ''a''), (1, Num (Finite 12))]\<rparr>
   \<and> snd (to_string_st sample_builtins 0 ''%g'' ''%Y-%m-%d''
          [\<lparr>name = None, data = ObjData [(0, Str ''a''), (1, Num (Finite 12))]\<rparr>]) ! 0
      = \<lparr>name = None, data = ObjData [(0, Str ''a''), (1, Num (Finite 12))]\<rparr>
   \<and> snd (validate_datetime_st sample_pandas 0 True False None None None
          [\<lparr>name = None, data = ObjData [(0, Str ''a''), (1, Num (Finite 12))]\<rparr>]) ! 0
      = \<lparr>name = None, data = ObjData [(0, Str ''a''), (1, Num (Finite 12))]\<rparr>
   \<and> snd (validate_numeric_st sample_pandas 0 True False False None None None
          [\<lparr>name = None, data = ObjData [(0, Str ''a''), (1, Num (Finite 12))]\<rparr>]) ! 0
      = \<lparr>name = None, data = ObjData [(0, Str ''a''), (1, Num (Finite 12))]\<rparr>
   \<and> snd (validate_string_st sample_builtins 0 True False None None None True True True
          None None None None True
          [\<lparr>name = None, data = ObjData [(0, Str ''a''), (1, Num (Finite 12))]\<rparr>]) ! 0
      = \<lparr>name = None, data = ObjData [(0, Str ''a''), (1, Num (Finite 12))]\<rparr>"
  using inputs_not_modified [where a = 0
      and h = "[\<lparr>name = None, data = ObjData [(0, Str ''a''), (1, Num (Finite 12))]\<rparr>]"
      and P = sample_pandas and B = sample_builtins and to_datatype = "''numeric''"
      and datetime_format = None and exact_date = True and float_format = "''%g''"
      and strftime_format = "''%Y-%m-%d''" and nullable = True and unique = False
      and integer = False and min_value = None and max_value = None and return_type = None
      and min_datetime = None and max_datetime = None and min_length = None
      and max_length = None and case_name = None and newlines = True
      and trailing_whitespace = True and whitespace = True and matching_regex = None
      and non_matching_regex = None and whitelist = None and blacklist = None
      and return_values = True]
  by simp

end
